theory Spec2Isabelle
  imports Complex_Main "HOL-Library.Word" "HOL-Library.Product_Lexorder" "HOL-Library.Multiset"
begin

unbundle bit_operations_syntax

section \<open>The masked converter (plugins/convert/masked.py)\<close>

text \<open>
  A shallow embedding of the classes \<open>Convert\<close> and \<open>Mask\<close>. Arrays are nested lists
  indexed \<open>[row][column][channel]\<close>, exceptions are values of the type \<open>error\<close>, the
  functions of OpenCV and of the aligner, which the module only calls, are the fields of a
  record of parameters, and every in-place update is written as the new value.
\<close>

subsection \<open>Floating-point values\<close>

text \<open>
  A \<open>float32\<close> is modelled by the number it denotes, or by one of the three special
  values of IEEE 754. Arithmetic on finite values is exact in the model: rounding,
  overflow and the sign of zero are not represented. The special values follow IEEE 754.
\<close>

datatype fval = Fin real | PInf | NInf | NaN

text \<open>The largest finite \<open>float32\<close>, \<open>(2 - 2^-23) * 2^127\<close>.\<close>

definition f32_max :: real where
  "f32_max = (2 ^ 24 - 1) * 2 ^ 104"


fun in_range :: "real \<Rightarrow> real \<Rightarrow> fval \<Rightarrow> bool" where
  "in_range lo hi (Fin x) = (lo \<le> x \<and> x \<le> hi)"
| "in_range lo hi PInf = False"
| "in_range lo hi NInf = False"
| "in_range lo hi NaN = False"

text \<open>\<open>np.nan_to_num\<close>: NaN becomes zero, an infinity the finite value of largest magnitude
  and of the same sign.\<close>

fun nan_to_num :: "fval \<Rightarrow> fval" where
  "nan_to_num (Fin x) = Fin x"
| "nan_to_num PInf = Fin f32_max"
| "nan_to_num NInf = Fin (- f32_max)"
| "nan_to_num NaN = Fin 0"

text \<open>\<open>np.clip(a, lo, hi)\<close> on one element, \<open>minimum(maximum(a, lo), hi)\<close>: NaN stays NaN.\<close>

fun clip :: "real \<Rightarrow> real \<Rightarrow> fval \<Rightarrow> fval" where
  "clip lo hi (Fin x) = Fin (min (max x lo) hi)"
| "clip lo hi PInf = Fin hi"
| "clip lo hi NInf = Fin (min lo hi)"
| "clip lo hi NaN = NaN"

text \<open>Comparison with zero, as \<open>np.nonzero\<close> and \<open>!= 0\<close> see it: NaN and the infinities
  are not zero.\<close>

fun is_nonzero :: "fval \<Rightarrow> bool" where
  "is_nonzero (Fin x) = (x \<noteq> 0)"
| "is_nonzero PInf = True"
| "is_nonzero NInf = True"
| "is_nonzero NaN = True"

fun fneg :: "fval \<Rightarrow> fval" where
  "fneg (Fin x) = Fin (- x)"
| "fneg PInf = NInf"
| "fneg NInf = PInf"
| "fneg NaN = NaN"

fun fadd :: "fval \<Rightarrow> fval \<Rightarrow> fval" where
  "fadd (Fin x) (Fin y) = Fin (x + y)"
| "fadd NaN b = NaN"
| "fadd a NaN = NaN"
| "fadd PInf NInf = NaN"
| "fadd NInf PInf = NaN"
| "fadd PInf b = PInf"
| "fadd NInf b = NInf"
| "fadd a PInf = PInf"
| "fadd a NInf = NInf"

definition fsub :: "fval \<Rightarrow> fval \<Rightarrow> fval" where
  "fsub a b = fadd a (fneg b)"

text \<open>An infinity of the sign of \<open>x\<close>, for \<open>x\<close> not zero.\<close>

definition inf_of_sign :: "real \<Rightarrow> fval" where
  "inf_of_sign x = (if 0 < x then PInf else NInf)"

fun fmul :: "fval \<Rightarrow> fval \<Rightarrow> fval" where
  "fmul (Fin x) (Fin y) = Fin (x * y)"
| "fmul NaN b = NaN"
| "fmul a NaN = NaN"
| "fmul (Fin x) PInf = (if x = 0 then NaN else inf_of_sign x)"
| "fmul (Fin x) NInf = (if x = 0 then NaN else inf_of_sign (- x))"
| "fmul PInf (Fin y) = (if y = 0 then NaN else inf_of_sign y)"
| "fmul NInf (Fin y) = (if y = 0 then NaN else inf_of_sign (- y))"
| "fmul PInf PInf = PInf"
| "fmul PInf NInf = NInf"
| "fmul NInf PInf = NInf"
| "fmul NInf NInf = PInf"

text \<open>Division never raises in numpy: a finite value over zero is an infinity, zero over
  zero is NaN. A zero divisor is taken as \<open>+0\<close>.\<close>

fun fdiv :: "fval \<Rightarrow> fval \<Rightarrow> fval" where
  "fdiv (Fin x) (Fin y) =
     (if y = 0 then (if x = 0 then NaN else inf_of_sign x) else Fin (x / y))"
| "fdiv NaN b = NaN"
| "fdiv a NaN = NaN"
| "fdiv (Fin x) PInf = Fin 0"
| "fdiv (Fin x) NInf = Fin 0"
| "fdiv PInf (Fin y) = (if 0 \<le> y then PInf else NInf)"
| "fdiv NInf (Fin y) = (if 0 \<le> y then NInf else PInf)"
| "fdiv PInf PInf = NaN"
| "fdiv PInf NInf = NaN"
| "fdiv NInf PInf = NaN"
| "fdiv NInf NInf = NaN"

text \<open>The order in which numpy sorts: minus infinity, the finite values, plus infinity,
  NaN last.\<close>

fun sort_rank :: "fval \<Rightarrow> nat \<times> real" where
  "sort_rank NInf = (0, 0)"
| "sort_rank (Fin x) = (1, x)"
| "sort_rank PInf = (2, 0)"
| "sort_rank NaN = (3, 0)"


subsection \<open>Exceptions\<close>

text \<open>The exception classes that the interpreter, numpy and OpenCV raise in this module,
  each with a message that names the operation that raised it.\<close>

datatype error =
    TypeError string
  | ValueError string
  | IndexError string
  | AttributeError string
  | OverflowError string
  | cv2_error string

definition bind :: "error + 'a \<Rightarrow> ('a \<Rightarrow> error + 'b) \<Rightarrow> error + 'b" where
  "bind r f = (case r of Inl e \<Rightarrow> Inl e | Inr x \<Rightarrow> f x)"

subsection \<open>Arrays\<close>

type_synonym channel = "fval list list"
type_synonym image = "fval list list list"

definition map_image :: "('a \<Rightarrow> 'b) \<Rightarrow> 'a list list list \<Rightarrow> 'b list list list" where
  "map_image f img = map (map (map f)) img"

definition all_image :: "('a \<Rightarrow> bool) \<Rightarrow> 'a list list list \<Rightarrow> bool" where
  "all_image P img = list_all (list_all (list_all P)) img"

text \<open>The second extent of a two- or three-dimensional array (its rows all have this
  length).\<close>

definition width :: "'a list list \<Rightarrow> nat" where
  "width a = (case a of [] \<Rightarrow> 0 | r # _ \<Rightarrow> length r)"

text \<open>\<open>np.nonzero\<close> of a two-dimensional array: the (row, column) pairs of the elements
  that are not zero, in row-major order. numpy returns the rows and the columns as two
  arrays, \<open>map fst\<close> and \<open>map snd\<close> of this list.\<close>

definition nonzero_row :: "nat \<Rightarrow> fval list \<Rightarrow> (nat \<times> nat) list" where
  "nonzero_row r row = map (\<lambda>(c, v). (r, c)) (filter (\<lambda>(c, v). is_nonzero v) (enumerate 0 row))"

definition np_nonzero2 :: "channel \<Rightarrow> (nat \<times> nat) list" where
  "np_nonzero2 a = concat (map (\<lambda>(r, row). nonzero_row r row) (enumerate 0 a))"

text \<open>\<open>a[(rows, cols)]\<close>: the elements at the given positions; a position outside the
  array raises IndexError.\<close>

definition take_at :: "channel \<Rightarrow> (nat \<times> nat) list \<Rightarrow> error + fval list" where
  "take_at a idx =
     (if list_all (\<lambda>(r, c). r < length a \<and> c < width a) idx
      then Inr (map (\<lambda>(r, c). a ! r ! c) idx)
      else Inl (IndexError ''index is out of bounds for axis''))"

text \<open>\<open>a.flat[n] = v\<close> on a two-dimensional array in C order.\<close>

definition put_flat :: "channel \<Rightarrow> nat \<Rightarrow> fval \<Rightarrow> channel" where
  "put_flat a n v = a[n div width a := (a ! (n div width a))[n mod width a := v]]"

text \<open>
  \<open>a.put(ind, v)\<close>: \<open>ind\<close> is flattened and read as indices into the flattened array,
  \<open>a.flat[ind[i]] = v[i mod len(v)]\<close> for \<open>i = 0, 1, ...\<close> in this order; an index outside
  the array raises IndexError (mode 'raise'), and nothing is written when \<open>v\<close> is empty.
\<close>

definition ndarray_put :: "channel \<Rightarrow> nat list \<Rightarrow> fval list \<Rightarrow> error + channel" where
  "ndarray_put a ind v =
     (if v = [] then Inr a
      else if list_all (\<lambda>n. n < length a * width a) ind
      then Inr (fold (\<lambda>(i, n) acc. put_flat acc n (v ! (i mod length v))) (enumerate 0 ind) a)
      else Inl (IndexError ''index is out of bounds for axis''))"

text \<open>
  \<open>np.unique(ar, return_inverse=True, return_counts=True)\<close>: the sorted distinct values,
  for every element the position of its value among them, and how often each value
  occurs.
\<close>

definition unique_values :: "fval list \<Rightarrow> fval list" where
  "unique_values ar = remdups_adj (sort_key sort_rank ar)"

definition index_of :: "'a \<Rightarrow> 'a list \<Rightarrow> nat" where
  "index_of v xs = length (takeWhile (\<lambda>u. u \<noteq> v) xs)"

definition np_unique :: "fval list \<Rightarrow> fval list \<times> nat list \<times> nat list" where
  "np_unique ar =
     (let values = unique_values ar
      in (values, map (\<lambda>v. index_of v values) ar, map (\<lambda>v. count_list ar v) values))"

text \<open>\<open>np.cumsum(counts, dtype='float32')\<close>\<close>

fun cumsum_from :: "real \<Rightarrow> nat list \<Rightarrow> real list" where
  "cumsum_from acc [] = []"
| "cumsum_from acc (n # ns) = (acc + real n) # cumsum_from (acc + real n) ns"

definition cumsum :: "nat list \<Rightarrow> real list" where
  "cumsum counts = cumsum_from 0 counts"

text \<open>\<open>quants /= quants[-1]\<close>; the index \<open>-1\<close> raises IndexError on an empty array.\<close>

definition divide_by_last :: "real list \<Rightarrow> error + real list" where
  "divide_by_last quants =
     (if quants = [] then Inl (IndexError ''index -1 is out of bounds for axis 0 with size 0'')
      else Inr (map (\<lambda>q. q / last quants) quants))"

text \<open>
  \<open>np.interp(x, xp, fp)\<close>, piecewise linear through the points \<open>(xp[j], fp[j])\<close> with
  \<open>xp\<close> increasing: below \<open>xp[0]\<close> the value is \<open>fp[0]\<close>, from \<open>xp[-1]\<close> on it is
  \<open>fp[-1]\<close>, and for \<open>xp[j] \<le> x < xp[j+1]\<close> it is
  \<open>(fp[j+1] - fp[j]) / (xp[j+1] - xp[j]) * (x - xp[j]) + fp[j]\<close>.
\<close>

fun interp_from :: "real \<Rightarrow> (real \<times> fval) list \<Rightarrow> fval" where
  "interp_from x [] = NaN"
| "interp_from x [(x0, y0)] = y0"
| "interp_from x ((x0, y0) # (x1, y1) # rest) =
     (if x < x1
      then fadd (fmul (fdiv (fsub y1 y0) (Fin (x1 - x0))) (Fin (x - x0))) y0
      else interp_from x ((x1, y1) # rest))"

definition interp_at :: "(real \<times> fval) list \<Rightarrow> real \<Rightarrow> fval" where
  "interp_at points x =
     (case points of [] \<Rightarrow> NaN
      | (x0, y0) # _ \<Rightarrow> if x < x0 then y0 else interp_from x points)"

definition np_interp :: "real list \<Rightarrow> real list \<Rightarrow> fval list \<Rightarrow> error + fval list" where
  "np_interp x xp fp =
     (if xp = [] then Inl (ValueError ''array of sample points is empty'')
      else if length fp \<noteq> length xp then Inl (ValueError ''fp and xp are not of the same length.'')
      else Inr (map (interp_at (zip xp fp)) x))"

subsection \<open>\<open>Convert.hist_match\<close>\<close>

text \<open>
  The three arguments are one channel each of the synthesised image, of the frame and of
  the mask. \<open>mask_indices\<close> is the pair of index arrays of \<open>np.nonzero\<close>; \<open>new.put\<close>
  receives that pair, which numpy flattens to the row indices followed by the column
  indices.
\<close>

text \<open>Lines 240 to 246: for every masked value of the synthesised channel the value that
  replaces it, \<open>interp_s_values[bin_idx]\<close>.\<close>

definition matched_values :: "fval list \<Rightarrow> fval list \<Rightarrow> error + fval list" where
  "matched_values m_new m_frame =
     (let (s_values, bin_idx, s_counts) = np_unique m_new;
          (t_values, t_inverse, t_counts) = np_unique m_frame
      in bind (divide_by_last (cumsum s_counts)) (\<lambda>s_quants.
         bind (divide_by_last (cumsum t_counts)) (\<lambda>t_quants.
         bind (np_interp s_quants t_quants t_values) (\<lambda>interp_s_values.
           Inr (map (\<lambda>i. interp_s_values ! i) bin_idx)))))"

definition hist_match :: "channel \<Rightarrow> channel \<Rightarrow> channel \<Rightarrow> error + channel" where
  "hist_match new frame image_mask =
     (let mask_indices = np_nonzero2 image_mask
      in if length mask_indices = 0 then Inr new
         else
           bind (take_at new mask_indices) (\<lambda>m_new.
           bind (take_at frame mask_indices) (\<lambda>m_frame.
           bind (matched_values m_new m_frame) (\<lambda>values.
             ndarray_put new (map fst mask_indices @ map snd mask_indices) values))))"


subsection \<open>Coverage and padding (\<open>Convert.patch_image\<close>, lines 37 to 41)\<close>

text \<open>Python's \<open>int\<close> of a float truncates towards zero.\<close>

definition py_int :: "real \<Rightarrow> int" where
  "py_int x = (if 0 \<le> x then \<lfloor>x\<rfloor> else \<lceil>x\<rceil>)"



text \<open>The specification's reading of the two values: rounding to the nearest integer
  (Python's \<open>round\<close>, ties to the even neighbour) and an exact half.\<close>

definition py_round :: "real \<Rightarrow> int" where
  "py_round x =
     (let f = \<lfloor>x\<rfloor>; d = x - of_int f
      in if d < 1 / 2 then f else if 1 / 2 < d then f + 1 else if even f then f else f + 1)"



subsection \<open>\<open>Mask.finalize_mask\<close>\<close>

text \<open>
  \<open>np.nan_to_num(mask, copy=False)\<close> followed by \<open>np.clip(mask, 0.0, 1.0, out=mask)\<close>;
  both work on the array in place and the array is returned.
\<close>

definition finalize_mask :: "image \<Rightarrow> image" where
  "finalize_mask msk = map_image (clip 0 1) (map_image nan_to_num msk)"

subsection \<open>Three-dimensional arrays\<close>

type_synonym u8image = "8 word list list list"

definition depth :: "'a list list list \<Rightarrow> nat" where
  "depth a = (case a of [] \<Rightarrow> 0 | r # _ \<Rightarrow> width r)"

definition shape3 :: "'a list list list \<Rightarrow> nat \<times> nat \<times> nat" where
  "shape3 a = (length a, width a, depth a)"

text \<open>An array of the shape \<open>(h, w, c)\<close>: every row has \<open>w\<close> pixels of \<open>c\<close> values.\<close>

definition is_array3 :: "nat \<Rightarrow> nat \<Rightarrow> nat \<Rightarrow> 'a list list list \<Rightarrow> bool" where
  "is_array3 h w c a =
     (length a = h \<and> list_all (\<lambda>row. length row = w \<and> list_all (\<lambda>px. length px = c) row) a)"

definition is_array2 :: "nat \<Rightarrow> nat \<Rightarrow> 'a list list \<Rightarrow> bool" where
  "is_array2 h w a = (length a = h \<and> list_all (\<lambda>row. length row = w) a)"

definition zip_image :: "('a \<Rightarrow> 'b \<Rightarrow> 'c) \<Rightarrow> 'a list list list \<Rightarrow> 'b list list list \<Rightarrow> 'c list list list" where
  "zip_image f a b = map2 (map2 (map2 f)) a b"

text \<open>
  An elementwise operation of numpy on two arrays of one shape. Operands of different
  shapes raise ValueError; the broadcasting of an axis of length one against a longer one
  is not modelled, the operands in this module being frames, images and masks.
\<close>

definition np_binary :: "(fval \<Rightarrow> fval \<Rightarrow> fval) \<Rightarrow> image \<Rightarrow> image \<Rightarrow> error + image" where
  "np_binary f a b =
     (if shape3 a = shape3 b then Inr (zip_image f a b)
      else Inl (ValueError ''operands could not be broadcast together''))"

text \<open>\<open>a[:, :, k]\<close> and the assignment to it.\<close>

definition channel_of :: "nat \<Rightarrow> 'a list list list \<Rightarrow> 'a list list" where
  "channel_of k a = map (map (\<lambda>px. px ! k)) a"

definition set_channel :: "nat \<Rightarrow> 'a list list \<Rightarrow> 'a list list list \<Rightarrow> 'a list list list" where
  "set_channel k ch a = map2 (\<lambda>row chrow. map2 (\<lambda>px v. px[k := v]) row chrow) a ch"

text \<open>\<open>np.sum(a, axis=(0, 1))\<close>: one sum for each channel.\<close>

definition fsum :: "fval list \<Rightarrow> fval" where
  "fsum xs = foldl fadd (Fin 0) xs"

definition sum_axes01 :: "image \<Rightarrow> fval list" where
  "sum_axes01 a = map (\<lambda>k. fsum (concat (channel_of k a))) [0..<depth a]"

text \<open>\<open>a + v\<close> and \<open>a / v\<close> for a vector \<open>v\<close> with one entry for each channel.\<close>

definition add_per_channel :: "image \<Rightarrow> fval list \<Rightarrow> image" where
  "add_per_channel a v = map (map (\<lambda>px. map2 fadd px v)) a"

text \<open>\<open>np.nonzero\<close> of a three-dimensional array, in C order.\<close>

definition np_nonzero3 :: "image \<Rightarrow> (nat \<times> nat \<times> nat) list" where
  "np_nonzero3 a =
     concat (map (\<lambda>(r, row).
       concat (map (\<lambda>(c, px).
         map (\<lambda>(k, v). (r, c, k)) (filter (\<lambda>(k, v). is_nonzero v) (enumerate 0 px)))
         (enumerate 0 row)))
       (enumerate 0 a))"

text \<open>\<open>np.min\<close> and \<open>np.max\<close> of an index array; an empty array has no minimum.\<close>

definition np_min :: "nat list \<Rightarrow> error + nat" where
  "np_min xs =
     (case xs of
        [] \<Rightarrow> Inl (ValueError ''zero-size array to reduction operation minimum which has no identity'')
      | y # ys \<Rightarrow> Inr (fold min ys y))"

definition np_max :: "nat list \<Rightarrow> error + nat" where
  "np_max xs =
     (case xs of
        [] \<Rightarrow> Inl (ValueError ''zero-size array to reduction operation maximum which has no identity'')
      | y # ys \<Rightarrow> Inr (fold max ys y))"

text \<open>Python's \<open>xs[start:stop]\<close>: a negative bound counts from the end, and both bounds
  are cut to the length.\<close>

definition slice_bound :: "int \<Rightarrow> nat \<Rightarrow> nat" where
  "slice_bound i n = (if i < 0 then nat (max 0 (i + int n)) else min (nat i) n)"

definition py_slice :: "int \<times> int \<Rightarrow> 'a list \<Rightarrow> 'a list" where
  "py_slice sl xs =
     (let lo = slice_bound (fst sl) (length xs); hi = slice_bound (snd sl) (length xs)
      in take (hi - lo) (drop lo xs))"

text \<open>\<open>a[ys, xs, :]\<close> for two slices.\<close>

definition crop2 :: "int \<times> int \<Rightarrow> int \<times> int \<Rightarrow> 'a list list list \<Rightarrow> 'a list list list" where
  "crop2 ys xs a = map (py_slice xs) (py_slice ys a)"

text \<open>\<open>np.rint\<close>: to the nearest integer, a tie to the even one.\<close>

fun rint :: "fval \<Rightarrow> fval" where
  "rint (Fin x) = Fin (of_int (py_round x))"
| "rint PInf = PInf"
| "rint NInf = NInf"
| "rint NaN = NaN"

text \<open>
  \<open>astype('uint8')\<close> of a float: the fraction is dropped. For a value whose integral part
  is not in \<open>0..255\<close>, and for NaN and the infinities, the C conversion is undefined; what
  the platform delivers there is the parameter \<open>out_of_range\<close>.
\<close>

definition astype_uint8 :: "(fval \<Rightarrow> 8 word) \<Rightarrow> fval \<Rightarrow> 8 word" where
  "astype_uint8 out_of_range v =
     (case v of
        Fin x \<Rightarrow> if - 1 < x \<and> x < 256 then word_of_int (py_int x) else out_of_range v
      | _ \<Rightarrow> out_of_range v)"

text \<open>\<open>np.pad(a, ((h, h), (w, w), (0, 0)), 'constant')\<close>: \<open>h\<close> rows and \<open>w\<close> columns of
  zeros on every side.\<close>

definition np_pad :: "nat \<Rightarrow> nat \<Rightarrow> image \<Rightarrow> image" where
  "np_pad h w a =
     (let zero_px = replicate (depth a) (Fin 0);
          zero_row = replicate (w + width a + w) zero_px
      in replicate h zero_row
         @ map (\<lambda>row. replicate w zero_px @ row @ replicate w zero_px) a
         @ replicate h zero_row)"

text \<open>\<open>np.full((h, w, c), v)\<close>\<close>

definition np_full :: "nat \<times> nat \<times> nat \<Rightarrow> 'a \<Rightarrow> 'a list list list" where
  "np_full shp v = (case shp of (h, w, c) \<Rightarrow> replicate h (replicate w (replicate c v)))"

subsection \<open>\<open>np.concatenate\<close> and the binding of its arguments\<close>

text \<open>
  The signature is \<open>concatenate((a1, a2, ...), axis=0, out=None)\<close>: the arrays are ONE
  argument, a sequence, and the second positional parameter is \<open>axis\<close>. A call is
  modelled by its positional arguments and its keyword \<open>axis\<close>. A call that gives
  \<open>axis\<close> by keyword and also passes a second positional argument binds \<open>axis\<close> twice, and
  the interpreter raises TypeError before numpy looks at any array.
\<close>

datatype pyobj = Array image | Sequence "image list" | Int int

definition concat_axis2 :: "image list \<Rightarrow> error + image" where
  "concat_axis2 arrays =
     (case arrays of
        [] \<Rightarrow> Inl (ValueError ''need at least one array to concatenate'')
      | a # rest \<Rightarrow>
          if list_all (\<lambda>b. length b = length a \<and> width b = width a) rest
          then Inr (fold (\<lambda>b acc. map2 (map2 (@)) acc b) rest a)
          else Inl (ValueError ''all the input array dimensions except for the concatenation axis must match exactly''))"

definition np_concatenate :: "pyobj list \<Rightarrow> int option \<Rightarrow> error + image" where
  "np_concatenate positional axis_keyword =
     (case positional of
        [] \<Rightarrow> Inl (TypeError ''concatenate: required argument missing'')
      | [Sequence arrays] \<Rightarrow>
          (if axis_keyword = Some 2 then concat_axis2 arrays
           else Inl (ValueError ''concatenate: an axis that this module does not use''))
      | [_] \<Rightarrow> Inl (ValueError ''concatenate: the argument is not a sequence of three-dimensional arrays'')
      | _ # _ # _ \<Rightarrow>
          (case axis_keyword of
             Some _ \<Rightarrow> Inl (TypeError ''concatenate: argument axis given by name and by position'')
           | None \<Rightarrow> Inl (TypeError ''concatenate: the axis is not an integer'')))"

subsection \<open>Configuration and the functions of OpenCV\<close>

text \<open>The options of the command line that the converter reads from \<open>self.args\<close>.\<close>

record args =
  mask_type :: string
  erosion_size :: real
  blur_size :: real
  draw_transparent :: bool
  sharpen_image :: "string option"
  avg_color_adjust :: bool
  match_histogram :: bool
  seamless_clone :: bool

text \<open>
  The functions of OpenCV that \<open>apply_fixes\<close> calls, taken as parameters, and the value
  that the platform's conversion from float to \<open>uint8\<close> delivers where C leaves it
  undefined. \<open>seamlessClone\<close> may raise \<open>cv2.error\<close>.
\<close>

record cv2_blend =
  filter2D :: "image \<Rightarrow> real list list \<Rightarrow> image"
  GaussianBlur :: "image \<Rightarrow> nat \<times> nat \<Rightarrow> real \<Rightarrow> image"
  addWeighted :: "image \<Rightarrow> real \<Rightarrow> image \<Rightarrow> real \<Rightarrow> real \<Rightarrow> image"
  seamlessClone :: "u8image \<Rightarrow> u8image \<Rightarrow> u8image \<Rightarrow> int \<times> int \<Rightarrow> error + u8image"
  out_of_range_cast :: "fval \<Rightarrow> 8 word"

subsection \<open>\<open>Convert.color_hist_match\<close>\<close>

text \<open>
  \<open>new[:, :, channel] = self.hist_match(new[:, :, channel], frame[:, :, channel],
  image_mask[:, :, channel])\<close> for the channels 0, 1 and 2. Taking channel \<open>k\<close> of an
  array with fewer channels raises IndexError.
\<close>

definition hist_match_channel :: "image \<Rightarrow> image \<Rightarrow> nat \<Rightarrow> image \<Rightarrow> error + image" where
  "hist_match_channel frame image_mask k new =
     (if k < depth new \<and> k < depth frame \<and> k < depth image_mask
      then bind (hist_match (channel_of k new) (channel_of k frame) (channel_of k image_mask))
             (\<lambda>ch. Inr (set_channel k ch new))
      else Inl (IndexError ''index is out of bounds for axis 2''))"

definition color_hist_match :: "image \<Rightarrow> image \<Rightarrow> image \<Rightarrow> error + image" where
  "color_hist_match new frame image_mask =
     bind (hist_match_channel frame image_mask 0 new) (\<lambda>new.
     bind (hist_match_channel frame image_mask 1 new) (\<lambda>new.
     hist_match_channel frame image_mask 2 new))"

subsection \<open>\<open>Convert.apply_fixes\<close>\<close>

text \<open>Lines 149 to 153: the alpha channel. Each of the three calls passes the two arrays
  as two positional arguments and \<open>axis=2\<close> by keyword.\<close>

definition append_alpha :: "image \<Rightarrow> image \<Rightarrow> image \<Rightarrow> nat \<times> nat \<Rightarrow> error + image \<times> image \<times> image" where
  "append_alpha frame new_image image_mask image_size =
     (let alpha = np_full (snd image_size, fst image_size, 1) (Fin 255)
      in bind (np_concatenate [Array new_image, Array alpha] (Some 2)) (\<lambda>new_image.
         bind (np_concatenate [Array image_mask, Array alpha] (Some 2)) (\<lambda>image_mask.
         bind (np_concatenate [Array frame, Array alpha] (Some 2)) (\<lambda>frame.
         Inr (frame, new_image, image_mask)))))"

text \<open>Lines 155 to 168: sharpening. \<open>masked\<close> is clipped for any value of the option
  that is not \<open>None\<close>; only the two known names filter it.\<close>

definition box_kernel :: "real list list" where
  "box_kernel = [[- 1, - 1, - 1], [- 1, 9, - 1], [- 1, - 1, - 1]]"

definition sharpen :: "'z cv2_blend_scheme \<Rightarrow> args \<Rightarrow> image \<Rightarrow> image" where
  "sharpen cv a masked =
     (case sharpen_image a of
        None \<Rightarrow> masked
      | Some name \<Rightarrow>
          (let masked = map_image (clip 0 255) masked
           in if name = ''box_filter'' then filter2D cv masked box_kernel
              else if name = ''gaussian_filter''
              then (let blur = GaussianBlur cv masked (0, 0) 3
                    in addWeighted cv masked (3 / 2) blur (- 1 / 2) 0)
              else masked))"

text \<open>Lines 172 to 176: one round of the average colour adjustment.\<close>

definition avg_color_round :: "image \<Rightarrow> image \<Rightarrow> image \<Rightarrow> error + image" where
  "avg_color_round frame image_mask masked =
     (let masked = map_image (clip 0 255) masked
      in bind (np_binary fsub frame masked) (\<lambda>diff.
         bind (np_binary fmul diff image_mask) (\<lambda>weighted.
           let avg_diff = sum_axes01 weighted;
               adjustment = map2 fdiv avg_diff (sum_axes01 image_mask)
           in Inr (add_per_channel masked adjustment))))"

text \<open>Lines 170 and 171: \<open>for _ in [0, 1]\<close>.\<close>

definition avg_color :: "args \<Rightarrow> image \<Rightarrow> image \<Rightarrow> image \<Rightarrow> error + image" where
  "avg_color a frame image_mask masked =
     (if avg_color_adjust a
      then bind (avg_color_round frame image_mask masked) (avg_color_round frame image_mask)
      else Inr masked)"

text \<open>Lines 178 to 180.\<close>

definition histogram :: "args \<Rightarrow> image \<Rightarrow> image \<Rightarrow> image \<Rightarrow> error + image" where
  "histogram a frame image_mask masked =
     (if match_histogram a
      then color_hist_match (map_image (clip 0 255) masked) frame image_mask
      else Inr masked)"

text \<open>Lines 155 to 180 together: what \<open>masked\<close> holds when the blend starts.\<close>

definition color_correct :: "'z cv2_blend_scheme \<Rightarrow> args \<Rightarrow> image \<Rightarrow> image \<Rightarrow> image \<Rightarrow> error + image" where
  "color_correct cv a frame image_mask masked =
     bind (avg_color a frame image_mask (sharpen cv a masked)) (histogram a frame image_mask)"

text \<open>
  Lines 183 to 211: the seamless clone. \<open>np.min(y_indices)\<close> is the first reduction that
  is evaluated; the slices \<open>min:max\<close> leave the last row and the last column of the
  bounding box out. \<open>blended[h:-h, w:-w, :]\<close> is empty when \<open>h\<close> or \<open>w\<close> is 0.
\<close>

definition seamless_blend :: "'z cv2_blend_scheme \<Rightarrow> image \<Rightarrow> image \<Rightarrow> image \<Rightarrow> error + u8image" where
  "seamless_blend cv frame masked image_mask =
     (let h = length frame div 2;
          w = width frame div 2;
          indices = np_nonzero3 image_mask;
          y_indices = map fst indices;
          x_indices = map (\<lambda>i. fst (snd i)) indices
      in bind (np_min y_indices) (\<lambda>y_min.
         bind (np_max y_indices) (\<lambda>y_max.
         bind (np_min x_indices) (\<lambda>x_min.
         bind (np_max x_indices) (\<lambda>x_max.
           let y_crop = (int y_min, int y_max);
               x_crop = (int x_min, int x_max);
               y_center = py_round ((real y_max + real y_min) / 2) + int h;
               x_center = py_round ((real x_max + real x_min) / 2) + int w;
               insertion = map_image (astype_uint8 (out_of_range_cast cv))
                             (map_image rint (crop2 y_crop x_crop masked));
               insertion_mask = map_image (astype_uint8 (out_of_range_cast cv))
                             (map_image (\<lambda>v. if is_nonzero v then Fin 255 else v)
                                (crop2 y_crop x_crop image_mask));
               prior = map_image (astype_uint8 (out_of_range_cast cv)) (np_pad h w frame)
           in bind (seamlessClone cv insertion prior insertion_mask (x_center, y_center))
                (\<lambda>blended. Inr (crop2 (int h, - int h) (int w, - int w) blended)))))))"

text \<open>Lines 214 to 216: the linear blend.\<close>

definition linear_blend :: "image \<Rightarrow> image \<Rightarrow> image \<Rightarrow> error + image" where
  "linear_blend frame masked image_mask =
     bind (np_binary fmul masked image_mask) (\<lambda>foreground.
     bind (np_binary fmul frame (map_image (fsub (Fin 1)) image_mask)) (\<lambda>background.
     np_binary fadd foreground background))"

text \<open>Lines 218 to 220 on the float buffer of the linear blend:
  \<open>np.clip(blended, 0.0, 255.0, out=blended)\<close> and \<open>np.rint(blended).astype('uint8')\<close>.\<close>

definition to_uint8 :: "'z cv2_blend_scheme \<Rightarrow> image \<Rightarrow> u8image" where
  "to_uint8 cv blended =
     map_image (astype_uint8 (out_of_range_cast cv)) (map_image rint (map_image (clip 0 255) blended))"

text \<open>
  The whole method. \<open>masked\<close> is bound to \<open>new_image\<close> before the alpha channel is
  appended. The clone delivers 8-bit values, which the clip and the rounding of lines 218
  to 220 leave as they are.
\<close>

definition apply_fixes :: "'z cv2_blend_scheme \<Rightarrow> args \<Rightarrow> image \<Rightarrow> image \<Rightarrow> image \<Rightarrow> nat \<times> nat \<Rightarrow> error + u8image" where
  "apply_fixes cv a frame new_image image_mask image_size =
     (let masked = new_image
      in bind (if draw_transparent a then append_alpha frame new_image image_mask image_size
               else Inr (frame, new_image, image_mask))
           (\<lambda>(frame, new_image, image_mask).
              bind (color_correct cv a frame image_mask masked) (\<lambda>masked.
                if seamless_clone a \<and> \<not> draw_transparent a
                then seamless_blend cv frame masked image_mask
                else bind (linear_blend frame masked image_mask) (\<lambda>blended.
                       Inr (to_uint8 cv blended)))))"

subsection \<open>The other functions of OpenCV, the aligner and the model\<close>

datatype border = BORDER_CONSTANT real | BORDER_TRANSPARENT

definition INTER_CUBIC :: int where "INTER_CUBIC = 2"
definition WARP_INVERSE_MAP :: int where "WARP_INVERSE_MAP = 16"

type_synonym point = "real \<times> real"

text \<open>
  The functions that write into a buffer they are given (\<open>warpAffine\<close> with \<open>dst\<close>,
  \<open>fillConvexPoly\<close>, \<open>ellipse\<close>) return what the buffer holds afterwards. \<open>resize\<close> and
  \<open>fitEllipse\<close> may raise \<open>cv2.error\<close>.
\<close>

record cv2 = cv2_blend +
  resize :: "image \<Rightarrow> nat \<times> nat \<Rightarrow> int \<Rightarrow> error + image"
  warpAffine :: "image \<Rightarrow> real list list \<Rightarrow> nat \<times> nat \<Rightarrow> image \<Rightarrow> int \<Rightarrow> border \<Rightarrow> image"
  erode :: "image \<Rightarrow> nat list list \<Rightarrow> nat \<Rightarrow> image"
  dilate :: "image \<Rightarrow> nat list list \<Rightarrow> nat \<Rightarrow> image"
  blur :: "image \<Rightarrow> nat \<times> nat \<Rightarrow> image"
  getStructuringElement :: "int \<Rightarrow> nat \<times> nat \<Rightarrow> nat list list"
  convexHull :: "point list \<Rightarrow> point list"
  fillConvexPoly :: "image \<Rightarrow> point list \<Rightarrow> real \<times> real \<times> real \<Rightarrow> image"
  fitEllipse :: "point list \<Rightarrow> error + (point \<times> point \<times> real)"
  cv2_ellipse :: "image \<Rightarrow> point \<times> point \<times> real \<Rightarrow> real \<times> real \<times> real \<Rightarrow> int \<Rightarrow> image"



subsection \<open>The class \<open>Mask\<close>\<close>

record Mask =
  m_training_size :: int
  m_padding :: int
  m_mask_type :: string
  m_crop :: "int \<times> int"

text \<open>\<open>np.zeros((n, n, 3))\<close> for a Python integer \<open>n\<close>.\<close>

definition np_zeros_square :: "int \<Rightarrow> error + image" where
  "np_zeros_square n =
     (if n < 0 then Inl (ValueError ''negative dimensions are not allowed'')
      else Inr (np_full (nat n, nat n, 3) (Fin 0)))"

text \<open>An index that the slice \<open>sl\<close> selects on an axis of length \<open>n\<close>.\<close>

definition in_slice :: "int \<times> int \<Rightarrow> nat \<Rightarrow> nat \<Rightarrow> bool" where
  "in_slice sl n i = (slice_bound (fst sl) n \<le> i \<and> i < slice_bound (snd sl) n)"

text \<open>\<open>a[ys, xs] = v\<close> for a scalar \<open>v\<close>.\<close>

definition fill_crop :: "int \<times> int \<Rightarrow> int \<times> int \<Rightarrow> 'a \<Rightarrow> 'a list list list \<Rightarrow> 'a list list list" where
  "fill_crop ys xs v a =
     map (\<lambda>(r, row).
       if in_slice ys (length a) r
       then map (\<lambda>(c, px). if in_slice xs (length row) c then map (\<lambda>u. v) px else px)
              (enumerate 0 row)
       else row) (enumerate 0 a)"

text \<open>The square of ones in aligned-face space that \<open>rect\<close> and \<open>smoothed\<close> start from.\<close>

definition crop_ones :: "Mask \<Rightarrow> error + image" where
  "crop_ones m =
     bind (np_zeros_square (m_training_size m)) (\<lambda>ones.
       Inr (fill_crop (m_crop m) (m_crop m) (Fin 1) ones))"

definition frame_zeros :: "nat \<times> nat \<Rightarrow> image" where
  "frame_zeros image_size = np_full (snd image_size, fst image_size, 3) (Fin 0)"


definition rect :: "Mask \<Rightarrow> cv2 \<Rightarrow> real list list \<Rightarrow> int \<times> int \<Rightarrow> point list \<Rightarrow> nat \<times> nat \<Rightarrow> error + image" where
  "rect m cv matrix interpolators landmarks image_size =
     (let interpolator = snd interpolators
      in bind (crop_ones m) (\<lambda>ones.
           Inr (warpAffine cv ones matrix image_size (frame_zeros image_size)
                  (WARP_INVERSE_MAP OR interpolator) (BORDER_CONSTANT 0))))"


definition facehull :: "cv2 \<Rightarrow> point list \<Rightarrow> nat \<times> nat \<Rightarrow> error + image" where
  "facehull cv landmarks image_size =
     (let hull_points = convexHull cv landmarks
      in Inr (fillConvexPoly cv (frame_zeros image_size) hull_points (1, 1, 1)))"

text \<open>\<open>mask = self.rect(**kwargs); hull_mask = self.facehull(**kwargs); mask *= hull_mask\<close>\<close>

definition facehull_rect :: "Mask \<Rightarrow> cv2 \<Rightarrow> real list list \<Rightarrow> int \<times> int \<Rightarrow> point list \<Rightarrow> nat \<times> nat \<Rightarrow> error + image" where
  "facehull_rect m cv matrix interpolators landmarks image_size =
     bind (rect m cv matrix interpolators landmarks image_size) (\<lambda>msk.
     bind (facehull cv landmarks image_size) (\<lambda>hull_mask.
     np_binary fmul msk hull_mask))"




subsection \<open>The class \<open>Convert\<close>\<close>















subsection \<open>Instances for evaluation\<close>

text \<open>
  An instance of the OpenCV parameters, to evaluate the model at concrete inputs. The
  filters return their input and the clone returns the padded frame; the conversion
  delivers 0 where C leaves it undefined, as on x86-64.
\<close>

definition cv2_plain :: cv2_blend where
  "cv2_plain =
     \<lparr>filter2D = (\<lambda>src kernel. src),
      GaussianBlur = (\<lambda>src ksize sigma. src),
      addWeighted = (\<lambda>src1 alpha src2 beta gamma. src1),
      seamlessClone = (\<lambda>src dst msk center. Inr dst),
      out_of_range_cast = (\<lambda>v. 0)\<rparr>"

definition args_plain :: args where
  "args_plain =
     \<lparr>mask_type = ''rect'', erosion_size = 0, blur_size = 0, draw_transparent = False,
      sharpen_image = None, avg_color_adjust = False, match_histogram = False,
      seamless_clone = False\<rparr>"

text \<open>
  An instance of all the OpenCV parameters. Its functions are exact on the inputs they are
  evaluated at below: \<open>resize\<close> on an image of one colour (every interpolation of it is
  that colour), \<open>warpAffine\<close> for the identity matrix (every destination pixel is the
  source pixel of the same position, or the border where the source ends),
  \<open>fillConvexPoly\<close> for a polygon that covers the frame, erosion and dilation for a
  kernel of one pixel.
\<close>

definition resize_one_colour :: "image \<Rightarrow> nat \<times> nat \<Rightarrow> int \<Rightarrow> error + image" where
  "resize_one_colour src dsize interpolation =
     (case src of
        (px # row) # rows \<Rightarrow>
          if fst dsize = 0 \<or> snd dsize = 0 then Inl (cv2_error ''resize: empty destination'')
          else Inr (replicate (snd dsize) (replicate (fst dsize) px))
      | _ \<Rightarrow> Inl (cv2_error ''resize: empty source''))"

definition warp_identity :: "image \<Rightarrow> real list list \<Rightarrow> nat \<times> nat \<Rightarrow> image \<Rightarrow> int \<Rightarrow> border \<Rightarrow> image" where
  "warp_identity src M dsize dst flags border_mode =
     map (\<lambda>(r, row).
       map (\<lambda>(c, px).
         if r < length src \<and> c < length (src ! r) then src ! r ! c
         else (case border_mode of
                 BORDER_TRANSPARENT \<Rightarrow> px
               | BORDER_CONSTANT v \<Rightarrow> map (\<lambda>u. Fin v) px))
         (enumerate 0 row))
       (enumerate 0 dst)"

definition cv2_instance :: cv2 where
  "cv2_instance =
     \<lparr>filter2D = (\<lambda>src kernel. src),
      GaussianBlur = (\<lambda>src ksize sigma. src),
      addWeighted = (\<lambda>src1 alpha src2 beta gamma. src1),
      seamlessClone = (\<lambda>src dst msk center. Inr dst),
      out_of_range_cast = (\<lambda>v. 0),
      resize = resize_one_colour,
      warpAffine = warp_identity,
      erode = (\<lambda>src kernel iterations. src),
      dilate = (\<lambda>src kernel iterations. src),
      blur = (\<lambda>src ksize. src),
      getStructuringElement = (\<lambda>shp ksize. replicate (snd ksize) (replicate (fst ksize) 1)),
      convexHull = (\<lambda>points. points),
      fillConvexPoly = (\<lambda>img points color.
         case color of (c0, c1, c2) \<Rightarrow> map (map (\<lambda>px. [Fin c0, Fin c1, Fin c2])) img),
      fitEllipse = (\<lambda>points. Inl (cv2_error ''fitEllipse: fewer than five points'')),
      cv2_ellipse = (\<lambda>img box color thickness. img)\<rparr>"





text \<open>A \<open>Mask\<close> of training size 2 whose coverage square is the first pixel.\<close>

definition mask_instance :: Mask where
  "mask_instance = \<lparr>m_training_size = 2, m_padding = 0, m_mask_type = ''facehull_rect'', m_crop = (0, 1)\<rparr>"

section \<open>Properties\<close>

subsection \<open>Arrays of one shape\<close>

lemma bind_Inl [simp]: "bind (Inl e) f = Inl e" by (simp add: bind_def)
lemma bind_Inr [simp]: "bind (Inr x) f = f x" by (simp add: bind_def)

lemma is_array3_length: "is_array3 h w c a \<Longrightarrow> length a = h"
  by (simp add: is_array3_def)

lemma is_array3_row: "is_array3 h w c a \<Longrightarrow> r < h \<Longrightarrow> length (a ! r) = w"
  by (auto simp: is_array3_def list_all_length)

lemma is_array3_px: "is_array3 h w c a \<Longrightarrow> r < h \<Longrightarrow> x < w \<Longrightarrow> length (a ! r ! x) = c"
  by (auto simp: is_array3_def list_all_length)

lemma is_array3I:
  assumes "length a = h" and "\<And>r. r < h \<Longrightarrow> length (a ! r) = w"
    and "\<And>r x. r < h \<Longrightarrow> x < w \<Longrightarrow> length (a ! r ! x) = c"
  shows "is_array3 h w c a"
  using assms by (auto simp: is_array3_def list_all_length)

lemma is_array3_shape3:
  assumes "is_array3 h w c a"
  shows "shape3 a = (h, if h = 0 then 0 else w, if h = 0 \<or> w = 0 then 0 else c)"
proof (cases a)
  case Nil
  then show ?thesis using assms by (simp add: shape3_def width_def depth_def is_array3_def)
next
  case (Cons row rest)
  then have h: "0 < h" using assms by (auto simp: is_array3_def)
  have row: "row = a ! 0" using Cons by simp
  have lr: "length row = w" using is_array3_row [OF assms h] row by simp
  show ?thesis
  proof (cases row)
    case Nil
    then show ?thesis using Cons lr h assms
      by (simp add: shape3_def width_def depth_def is_array3_def)
  next
    case (Cons px pxs)
    then have w: "0 < w" using lr by auto
    have "px = a ! 0 ! 0" using Cons row by simp
    then have "length px = c" using is_array3_px [OF assms h w] by simp
    then show ?thesis using Cons \<open>a = row # rest\<close> lr h w assms
      by (simp add: shape3_def width_def depth_def is_array3_def)
  qed
qed

lemma is_array3_same_shape:
  "is_array3 h w c a \<Longrightarrow> is_array3 h w c b \<Longrightarrow> shape3 a = shape3 b"
  by (simp add: is_array3_shape3)

lemma image_eqI:
  assumes a: "is_array3 h w c a" and b: "is_array3 h w c b"
    and eq: "\<And>r x k. r < h \<Longrightarrow> x < w \<Longrightarrow> k < c \<Longrightarrow> a ! r ! x ! k = b ! r ! x ! k"
  shows "a = b"
proof (rule nth_equalityI)
  show "length a = length b" using a b by (simp add: is_array3_def)
next
  fix r assume "r < length a"
  then have r: "r < h" using a by (simp add: is_array3_def)
  show "a ! r = b ! r"
  proof (rule nth_equalityI)
    show "length (a ! r) = length (b ! r)"
      using is_array3_row [OF a r] is_array3_row [OF b r] by simp
  next
    fix x assume "x < length (a ! r)"
    then have x: "x < w" using is_array3_row [OF a r] by simp
    show "a ! r ! x = b ! r ! x"
    proof (rule nth_equalityI)
      show "length (a ! r ! x) = length (b ! r ! x)"
        using is_array3_px [OF a r x] is_array3_px [OF b r x] by simp
    next
      fix k assume "k < length (a ! r ! x)"
      then have "k < c" using is_array3_px [OF a r x] by simp
      then show "a ! r ! x ! k = b ! r ! x ! k" using eq r x by simp
    qed
  qed
qed

lemma zip_image_array3:
  assumes "is_array3 h w c a" and "is_array3 h w c b"
  shows "is_array3 h w c (zip_image f a b)"
  using assms by (intro is_array3I) (simp_all add: zip_image_def is_array3_length is_array3_row is_array3_px)

lemma zip_image_nth:
  assumes "is_array3 h w c a" and "is_array3 h w c b" and "r < h" and "x < w" and "k < c"
  shows "zip_image f a b ! r ! x ! k = f (a ! r ! x ! k) (b ! r ! x ! k)"
  using assms by (simp add: zip_image_def is_array3_length is_array3_row is_array3_px)

lemma map_image_array3:
  assumes "is_array3 h w c a"
  shows "is_array3 h w c (map_image f a)"
  using assms by (intro is_array3I) (simp_all add: map_image_def is_array3_length is_array3_row is_array3_px)

lemma map_image_nth:
  assumes "is_array3 h w c a" and "r < h" and "x < w" and "k < c"
  shows "map_image f a ! r ! x ! k = f (a ! r ! x ! k)"
  using assms by (simp add: map_image_def is_array3_length is_array3_row is_array3_px)


lemma np_binary_array3:
  assumes "is_array3 h w c a" and "is_array3 h w c b"
  shows "np_binary f a b = Inr (zip_image f a b)"
  using is_array3_same_shape [OF assms] by (simp add: np_binary_def)

lemma linear_blend_array3:
  assumes f: "is_array3 h w c frame" and m: "is_array3 h w c masked"
    and k: "is_array3 h w c image_mask"
  shows "linear_blend frame masked image_mask =
     Inr (zip_image fadd (zip_image fmul masked image_mask)
            (zip_image fmul frame (map_image (fsub (Fin 1)) image_mask)))"
proof -
  note inv = map_image_array3 [OF k, of "fsub (Fin 1)"]
  note fg = zip_image_array3 [OF m k, of fmul]
  note bg = zip_image_array3 [OF f inv, of fmul]
  show ?thesis
    by (simp add: linear_blend_def np_binary_array3 [OF m k] np_binary_array3 [OF f inv]
        np_binary_array3 [OF fg bg])
qed

lemma fmul_one [simp]: "fmul v (Fin 1) = v"
  by (cases v) (simp_all add: inf_of_sign_def)


lemma fadd_zero_right [simp]: "fadd v (Fin 0) = v"
  by (cases v) simp_all

lemma fadd_zero_left [simp]: "fadd (Fin 0) v = v"
  by (cases v) simp_all



subsection \<open>Finalising a mask\<close>

lemma f32_max_ge_1: "1 \<le> f32_max"
proof -
  have "(1::real) \<le> (2 ^ 24 - 1) * 1" by simp
  also have "\<dots> \<le> (2 ^ 24 - 1) * 2 ^ 104"
    by (rule mult_left_mono) simp_all
  finally show ?thesis by (simp add: f32_max_def)
qed

lemma clip_nan_to_num_unit: "in_range 0 1 (clip 0 1 (nan_to_num v))"
  by (cases v) simp_all

lemma clip_nan_to_num_cases:
  "clip 0 1 (nan_to_num v) =
     (case v of Fin x \<Rightarrow> Fin (min (max x 0) 1) | PInf \<Rightarrow> Fin 1 | NInf \<Rightarrow> Fin 0 | NaN \<Rightarrow> Fin 0)"
  using f32_max_ge_1 by (cases v) (simp_all add: min_def max_def)

text \<open>
  C4, as the code has it. Whatever the mask holds (NaN, infinities, values out of range),
  every element of the finalised mask is a finite number of \<open>[0,1]\<close>. NaN and minus
  infinity end as 0; plus infinity is replaced by the largest finite value and ends as 1,
  not as 0; a finite value is clamped.
\<close>

theorem finalize_mask_unit_interval:
  "all_image (in_range 0 1) (finalize_mask msk)
   \<and> finalize_mask msk =
       map_image (\<lambda>v. case v of Fin x \<Rightarrow> Fin (min (max x 0) 1)
                        | PInf \<Rightarrow> Fin 1 | NInf \<Rightarrow> Fin 0 | NaN \<Rightarrow> Fin 0) msk"
proof
  show "all_image (in_range 0 1) (finalize_mask msk)"
    by (simp add: all_image_def finalize_mask_def map_image_def list_all_iff
        clip_nan_to_num_unit)
  show "finalize_mask msk =
       map_image (\<lambda>v. case v of Fin x \<Rightarrow> Fin (min (max x 0) 1)
                        | PInf \<Rightarrow> Fin 1 | NInf \<Rightarrow> Fin 0 | NaN \<Rightarrow> Fin 0) msk"
    by (simp add: finalize_mask_def map_image_def clip_nan_to_num_cases comp_def)
qed

text \<open>
  C4 as stated says that an infinity is replaced by 0 before the clamp. A mask of the one
  element plus infinity is finalised to 1.
\<close>

theorem finalize_mask_inf_counterexample:
  "finalize_mask [[[PInf]]] = [[[Fin 1]]] \<and> finalize_mask [[[PInf]]] \<noteq> [[[Fin 0]]]"
  using f32_max_ge_1 by (simp add: finalize_mask_def map_image_def)

subsection \<open>Coverage and padding\<close>




subsection \<open>Histogram matching\<close>

lemma nonzero_row_zero:
  "list_all (\<lambda>v. \<not> is_nonzero v) row \<Longrightarrow> nonzero_row r row = []"
  by (auto simp: nonzero_row_def filter_empty_conv in_set_enumerate_eq list_all_iff)

lemma np_nonzero2_zero:
  "list_all (list_all (\<lambda>v. \<not> is_nonzero v)) a \<Longrightarrow> np_nonzero2 a = []"
  by (auto simp: np_nonzero2_def in_set_enumerate_eq list_all_iff intro!: nonzero_row_zero)

text \<open>
  C8. When no element of the mask channel is nonzero, \<open>hist_match\<close> returns the
  synthesised channel as it received it, and raises nothing.
\<close>

theorem hist_match_empty_mask:
  assumes "list_all (list_all (\<lambda>v. \<not> is_nonzero v)) image_mask"
  shows "hist_match new frame image_mask = Inr new"
  using np_nonzero2_zero [OF assms] by (simp add: hist_match_def)

theorem hist_match_empty_mask_witness:
  "list_all (list_all (\<lambda>v. \<not> is_nonzero v)) [[Fin 0, Fin 0], [Fin 0, Fin 0]]
   \<and> hist_match [[Fin 7, Fin 9], [Fin 200, Fin 50]] [[Fin 1, Fin 2], [Fin 3, Fin 4]]
        [[Fin 0, Fin 0], [Fin 0, Fin 0]] = Inr [[Fin 7, Fin 9], [Fin 200, Fin 50]]"
  using hist_match_empty_mask [of "[[Fin 0, Fin 0], [Fin 0, Fin 0]]"
      "[[Fin 7, Fin 9], [Fin 200, Fin 50]]" "[[Fin 1, Fin 2], [Fin 3, Fin 4]]"]
  by simp

text \<open>
  C3 says that matching a channel against itself changes nothing at the masked pixels.
  The code at the channel \<open>[[1, 2], [3, 4]]\<close>, matched against itself under the mask
  \<open>[[1, 0], [1, 0]]\<close>: the masked values are 1 and 3, the interpolated values are 1 and 3
  again, and \<open>new.put\<close> writes them to the flat positions 0, 1 (the row indices) and
  0, 0 (the column indices). The masked pixel in the corner ends as 3, and the pixel
  beside it, which is not masked, as 3 too.
\<close>

theorem hist_match_same_image_changes_masked_pixel:
  "hist_match [[Fin 1, Fin 2], [Fin 3, Fin 4]] [[Fin 1, Fin 2], [Fin 3, Fin 4]]
     [[Fin 1, Fin 0], [Fin 1, Fin 0]] = Inr [[Fin 3, Fin 3], [Fin 3, Fin 4]]"
  by code_simp

subsection \<open>The blend\<close>

text \<open>
  C7 says that with \<open>draw_transparent\<close> the three buffers get a fourth channel of 255
  and are blended. The code: each of the three calls of \<open>np.concatenate\<close> gives the axis
  twice, so the first of them raises TypeError and no buffer is extended.
\<close>

theorem apply_fixes_draw_transparent:
  assumes "draw_transparent a"
  shows "apply_fixes cv a frame new_image image_mask image_size =
     Inl (TypeError ''concatenate: argument axis given by name and by position'')"
  using assms by (simp add: apply_fixes_def append_alpha_def np_concatenate_def Let_def)

theorem apply_fixes_draw_transparent_witness:
  "draw_transparent (args_plain\<lparr>draw_transparent := True\<rparr>)
   \<and> apply_fixes cv2_plain (args_plain\<lparr>draw_transparent := True\<rparr>)
        [[[Fin 10, Fin 20, Fin 30]]] [[[Fin 1, Fin 2, Fin 3]]] [[[Fin 1, Fin 1, Fin 1]]] (1, 1)
      = Inl (TypeError ''concatenate: argument axis given by name and by position'')"
  using apply_fixes_draw_transparent [of "args_plain\<lparr>draw_transparent := True\<rparr>" cv2_plain
      "[[[Fin 10, Fin 20, Fin 30]]]" "[[[Fin 1, Fin 2, Fin 3]]]" "[[[Fin 1, Fin 1, Fin 1]]]" "(1, 1)"]
  by (simp add: args_plain_def)

lemma np_nonzero3_zero:
  assumes "all_image (\<lambda>v. \<not> is_nonzero v) a"
  shows "np_nonzero3 a = []"
  using assms
  by (auto simp: np_nonzero3_def all_image_def in_set_enumerate_eq list_all_iff filter_empty_conv)
     (meson nth_mem)

lemma seamless_blend_zero:
  assumes "all_image (\<lambda>v. \<not> is_nonzero v) image_mask"
  shows "seamless_blend cv frame masked image_mask =
     Inl (ValueError ''zero-size array to reduction operation minimum which has no identity'')"
  by (simp add: seamless_blend_def np_nonzero3_zero [OF assms] np_min_def Let_def)

text \<open>
  C1, as the code has it. With \<open>seamless_clone\<close> set, \<open>draw_transparent\<close> not set and a
  mask without a nonzero element, \<open>apply_fixes\<close> fails before \<open>cv2.seamlessClone\<close> is
  called, whatever that function is: the index arrays are empty, the first reduction of
  the bounding box, \<open>np.min(y_indices)\<close>, raises ValueError, and that exception is the
  result of \<open>apply_fixes\<close> unless the colour correction has raised before. The method has
  no test of its own for the empty mask.
\<close>

theorem apply_fixes_seamless_zero_mask:
  assumes "seamless_clone a" and "\<not> draw_transparent a"
    and "all_image (\<lambda>v. \<not> is_nonzero v) image_mask"
  shows "np_min (map fst (np_nonzero3 image_mask)) =
           Inl (ValueError ''zero-size array to reduction operation minimum which has no identity'')
    \<and> seamless_blend cv frame masked image_mask =
           Inl (ValueError ''zero-size array to reduction operation minimum which has no identity'')
    \<and> apply_fixes cv a frame new_image image_mask image_size =
         bind (color_correct cv a frame image_mask new_image)
           (\<lambda>masked. Inl (ValueError ''zero-size array to reduction operation minimum which has no identity''))"
  using assms
  by (simp add: apply_fixes_def seamless_blend_zero np_nonzero3_zero np_min_def Let_def)

theorem apply_fixes_seamless_zero_mask_witness:
  "seamless_clone (args_plain\<lparr>seamless_clone := True\<rparr>)
   \<and> \<not> draw_transparent (args_plain\<lparr>seamless_clone := True\<rparr>)
   \<and> all_image (\<lambda>v. \<not> is_nonzero v) [[[Fin 0, Fin 0, Fin 0]]]
   \<and> apply_fixes cv2_plain (args_plain\<lparr>seamless_clone := True\<rparr>)
        [[[Fin 10, Fin 20, Fin 30]]] [[[Fin 1, Fin 2, Fin 3]]] [[[Fin 0, Fin 0, Fin 0]]] (1, 1)
      = Inl (ValueError ''zero-size array to reduction operation minimum which has no identity'')"
  using apply_fixes_seamless_zero_mask [where a = "args_plain\<lparr>seamless_clone := True\<rparr>"
      and image_mask = "[[[Fin 0, Fin 0, Fin 0]]]" and cv = cv2_plain
      and frame = "[[[Fin 10, Fin 20, Fin 30]]]" and new_image = "[[[Fin 1, Fin 2, Fin 3]]]"
      and image_size = "(1, 1)"]
  by (simp add: args_plain_def all_image_def color_correct_def sharpen_def avg_color_def
      histogram_def)

text \<open>
  C1 as stated has the empty mask tested and reported by \<open>apply_fixes\<close> itself, not left to
  fail in the computation of the bounding box. On a frame of one pixel with the mask
  \<open>[0, 0, 0]\<close> the exception that \<open>apply_fixes\<close> ends with is the ValueError of the
  reduction \<open>np.min\<close> over the empty index array.
\<close>

theorem apply_fixes_seamless_zero_mask_counterexample:
  "np_nonzero3 [[[Fin 0, Fin 0, Fin 0]]] = []
   \<and> np_min (map fst (np_nonzero3 [[[Fin 0, Fin 0, Fin 0]]])) =
       Inl (ValueError ''zero-size array to reduction operation minimum which has no identity'')
   \<and> apply_fixes cv2_plain (args_plain\<lparr>seamless_clone := True\<rparr>)
        [[[Fin 10, Fin 20, Fin 30]]] [[[Fin 1, Fin 2, Fin 3]]] [[[Fin 0, Fin 0, Fin 0]]] (1, 1)
      = Inl (ValueError ''zero-size array to reduction operation minimum which has no identity'')"
  by (simp add: apply_fixes_def args_plain_def color_correct_def sharpen_def avg_color_def
      histogram_def seamless_blend_def np_nonzero3_def np_min_def Let_def)




subsection \<open>The average colour adjustment on an empty mask channel\<close>

lemma is_array2_row: "is_array2 h w a \<Longrightarrow> r < h \<Longrightarrow> length (a ! r) = w"
  by (auto simp: is_array2_def list_all_length)

lemma is_array2_width: "is_array2 h w a \<Longrightarrow> 0 < h \<Longrightarrow> width a = w"
  by (cases a) (auto simp: is_array2_def width_def)

lemma channel_of_array2: "is_array3 h w c a \<Longrightarrow> is_array2 h w (channel_of k a)"
  by (auto simp: is_array2_def is_array3_def channel_of_def list_all_iff)

lemma channel_of_nth:
  "is_array3 h w c a \<Longrightarrow> r < h \<Longrightarrow> x < w \<Longrightarrow> channel_of k a ! r ! x = a ! r ! x ! k"
  by (simp add: channel_of_def is_array3_length is_array3_row)

lemma is_array3_depth: "is_array3 h w c a \<Longrightarrow> 0 < h \<Longrightarrow> 0 < w \<Longrightarrow> depth a = c"
  using is_array3_shape3 [of h w c a] by (simp add: shape3_def)



lemma foldl_fadd_closed:
  assumes "\<And>u v. P u \<Longrightarrow> P v \<Longrightarrow> P (fadd u v)"
  shows "P acc \<Longrightarrow> list_all P xs \<Longrightarrow> P (foldl fadd acc xs)"
  by (induction xs arbitrary: acc) (simp_all add: assms)

lemma fsum_zeros: "list_all (\<lambda>v. v = Fin 0) xs \<Longrightarrow> fsum xs = Fin 0"
  unfolding fsum_def by (rule foldl_fadd_closed [where P = "\<lambda>v. v = Fin 0"]) simp_all

lemma fadd_NaN_right [simp]: "fadd v NaN = NaN"
  by (cases v) simp_all

lemma fsum_zero_or_nan:
  "list_all (\<lambda>v. v = Fin 0 \<or> v = NaN) xs \<Longrightarrow> fsum xs = Fin 0 \<or> fsum xs = NaN"
  unfolding fsum_def
  by (rule foldl_fadd_closed [where P = "\<lambda>v. v = Fin 0 \<or> v = NaN"]) auto

lemma fmul_zero_cases: "fmul v (Fin 0) = Fin 0 \<or> fmul v (Fin 0) = NaN"
  by (cases v) simp_all

lemma not_nonzero_iff: "\<not> is_nonzero v \<longleftrightarrow> v = Fin 0"
  by (cases v) simp_all

lemma channel_all:
  assumes a: "is_array3 h w c a"
    and p: "\<And>r x. r < h \<Longrightarrow> x < w \<Longrightarrow> P (a ! r ! x ! k)"
  shows "list_all P (concat (channel_of k a))"
proof -
  have "list_all (list_all P) (channel_of k a)"
    using a p
    by (simp add: list_all_length channel_of_def is_array3_length is_array3_row)
  then show ?thesis by (auto simp: list_all_iff)
qed

lemma sum_axes01_nth:
  "k < depth a \<Longrightarrow> sum_axes01 a ! k = fsum (concat (channel_of k a))"
  by (simp add: sum_axes01_def)

lemma length_sum_axes01 [simp]: "length (sum_axes01 a) = depth a"
  by (simp add: sum_axes01_def)

text \<open>One round of the adjustment on a channel whose mask is zero.\<close>

lemma avg_color_round_nan:
  assumes f: "is_array3 h w c frame" and m: "is_array3 h w c image_mask"
    and n: "is_array3 h w c masked" and k: "k < c"
    and z: "\<And>r x. r < h \<Longrightarrow> x < w \<Longrightarrow> image_mask ! r ! x ! k = Fin 0"
  shows "\<exists>out. avg_color_round frame image_mask masked = Inr out \<and> is_array3 h w c out
           \<and> (\<forall>r<h. \<forall>x<w. out ! r ! x ! k = NaN)"
proof -
  define clipped where "clipped = map_image (clip 0 255) masked"
  define diff where "diff = zip_image fsub frame clipped"
  define weighted where "weighted = zip_image fmul diff image_mask"
  define adjustment where "adjustment = map2 fdiv (sum_axes01 weighted) (sum_axes01 image_mask)"
  define out where "out = add_per_channel clipped adjustment"
  have cl: "is_array3 h w c clipped" unfolding clipped_def by (rule map_image_array3 [OF n])
  have df: "is_array3 h w c diff" unfolding diff_def by (rule zip_image_array3 [OF f cl])
  have wt: "is_array3 h w c weighted" unfolding weighted_def by (rule zip_image_array3 [OF df m])
  have run: "avg_color_round frame image_mask masked = Inr out"
    using np_binary_array3 [OF f cl, of fsub] np_binary_array3 [OF df m, of fmul]
    by (simp add: avg_color_round_def Let_def clipped_def [symmetric] diff_def [symmetric]
        weighted_def [symmetric] adjustment_def [symmetric] out_def)
  have adj: "length adjustment = c \<and> adjustment ! k = NaN" if hw: "0 < h" "0 < w"
  proof -
    have dw: "depth weighted = c" and dm: "depth image_mask = c"
      using is_array3_depth [OF wt hw] is_array3_depth [OF m hw] by simp_all
    have "list_all (\<lambda>v. v = Fin 0) (concat (channel_of k image_mask))"
      by (rule channel_all [OF m]) (rule z)
    then have sm: "sum_axes01 image_mask ! k = Fin 0"
      using k dm by (simp add: sum_axes01_nth fsum_zeros)
    have "list_all (\<lambda>v. v = Fin 0 \<or> v = NaN) (concat (channel_of k weighted))"
    proof (rule channel_all [OF wt])
      fix r x assume b: "r < h" "x < w"
      show "weighted ! r ! x ! k = Fin 0 \<or> weighted ! r ! x ! k = NaN"
        unfolding weighted_def using zip_image_nth [OF df m b k, of fmul] z [OF b] fmul_zero_cases
        by simp
    qed
    then have "fsum (concat (channel_of k weighted)) = Fin 0 \<or> fsum (concat (channel_of k weighted)) = NaN"
      by (rule fsum_zero_or_nan)
    then have "fdiv (sum_axes01 weighted ! k) (sum_axes01 image_mask ! k) = NaN"
      using sm k dw by (auto simp: sum_axes01_nth)
    then show ?thesis using k dw dm by (simp add: adjustment_def)
  qed
  have arr: "is_array3 h w c out"
  proof (rule is_array3I)
    show "length out = h" using cl by (simp add: out_def add_per_channel_def is_array3_length)
    show "length (out ! r) = w" if "r < h" for r
      using cl that by (simp add: out_def add_per_channel_def is_array3_length is_array3_row)
    show "length (out ! r ! x) = c" if "r < h" "x < w" for r x
    proof -
      have "0 < h" "0 < w" using that by auto
      then have "length adjustment = c" using adj by simp
      then show ?thesis using cl that
        by (simp add: out_def add_per_channel_def is_array3_length is_array3_row is_array3_px)
    qed
  qed
  have nan: "out ! r ! x ! k = NaN" if "r < h" "x < w" for r x
  proof -
    have "0 < h" "0 < w" using that by auto
    then have "length adjustment = c" "adjustment ! k = NaN" using adj by simp_all
    then show ?thesis using cl that k
      by (simp add: out_def add_per_channel_def is_array3_length is_array3_row is_array3_px)
  qed
  show ?thesis using run arr nan by blast
qed


text \<open>On channels of one shape \<open>hist_match\<close> raises nothing and keeps the shape.\<close>

lemma np_nonzero2_bounds:
  assumes "is_array2 h w a" and "(r, x) \<in> set (np_nonzero2 a)"
  shows "r < h \<and> x < w"
proof -
  from assms(2) have "r < length a \<and> x < length (a ! r)"
    by (auto simp: np_nonzero2_def nonzero_row_def in_set_enumerate_eq)
  then show ?thesis using assms(1) is_array2_row [of h w a r] by (simp add: is_array2_def)
qed

lemma put_flat_array2:
  assumes "is_array2 h w a"
  shows "is_array2 h w (put_flat a n v)"
proof (cases "n div width a < length a")
  case True
  then show ?thesis using assms
    by (auto simp: is_array2_def put_flat_def list_all_length nth_list_update)
next
  case False
  then have "a[n div width a := (a ! (n div width a))[n mod width a := v]] = a"
    by (simp add: list_update_beyond)
  then show ?thesis using assms by (simp add: put_flat_def)
qed

lemma less_mult_right: "(r::nat) < h \<Longrightarrow> 0 < w \<Longrightarrow> r < h * w"
  by (cases w) simp_all

lemma less_mult_left: "(x::nat) < w \<Longrightarrow> 0 < h \<Longrightarrow> x < h * w"
  by (cases h) simp_all

lemma fold_put_flat_array2:
  "is_array2 h w a \<Longrightarrow> is_array2 h w (fold (\<lambda>(i, n) acc. put_flat acc n (f i)) ps a)"
  by (induction ps arbitrary: a) (auto simp: put_flat_array2)

lemma ndarray_put_array2:
  assumes "is_array2 h w a" and "list_all (\<lambda>n. n < h * w) ind"
  shows "\<exists>out. ndarray_put a ind v = Inr out \<and> is_array2 h w out"
proof (cases "h = 0")
  case True
  then show ?thesis using assms
    by (cases ind) (auto simp: ndarray_put_def is_array2_def)
next
  case False
  then have "width a = w" using is_array2_width [OF assms(1)] by simp
  moreover have "length a = h" using assms(1) by (simp add: is_array2_def)
  ultimately show ?thesis using assms
    by (auto simp: ndarray_put_def fold_put_flat_array2)
qed

lemma take_at_array2:
  assumes "is_array2 h w a" and "\<And>r x. (r, x) \<in> set idx \<Longrightarrow> r < h \<and> x < w"
  shows "take_at a idx = Inr (map (\<lambda>(r, c). a ! r ! c) idx)"
proof (cases idx)
  case Nil
  then show ?thesis by (simp add: take_at_def)
next
  case (Cons p ps)
  then have "0 < h" using assms(2) [of "fst p" "snd p"] by auto
  then have "width a = w" "length a = h"
    using is_array2_width [OF assms(1)] assms(1) by (simp_all add: is_array2_def)
  then show ?thesis using assms(2) by (auto simp: take_at_def list_all_iff)
qed

lemma unique_values_nonempty: "ar \<noteq> [] \<Longrightarrow> unique_values ar \<noteq> []"
proof -
  assume "ar \<noteq> []"
  then have "length (sort_key sort_rank ar) \<noteq> 0" by simp
  then show ?thesis unfolding unique_values_def by (metis list.size(3) remdups_adj_Nil_iff)
qed

lemma length_cumsum_from [simp]: "length (cumsum_from acc ns) = length ns"
  by (induction ns arbitrary: acc) simp_all

lemma divide_by_last_ok:
  "counts \<noteq> [] \<Longrightarrow>
     \<exists>q. divide_by_last (cumsum counts) = Inr q \<and> length q = length counts"
  by (cases counts) (simp_all add: divide_by_last_def cumsum_def)

lemma hist_match_total:
  assumes n: "is_array2 h w new" and f: "is_array2 h w frame" and m: "is_array2 h w image_mask"
  shows "\<exists>out. hist_match new frame image_mask = Inr out \<and> is_array2 h w out"
proof (cases "np_nonzero2 image_mask = []")
  case True
  then show ?thesis using n by (simp add: hist_match_def)
next
  case False
  define idx where "idx = np_nonzero2 image_mask"
  have b: "\<And>r x. (r, x) \<in> set idx \<Longrightarrow> r < h \<and> x < w"
    unfolding idx_def using np_nonzero2_bounds [OF m] by blast
  have ne: "idx \<noteq> []" using False by (simp add: idx_def)
  define m_new where "m_new = map (\<lambda>(r, c). new ! r ! c) idx"
  define m_frame where "m_frame = map (\<lambda>(r, c). frame ! r ! c) idx"
  have tn: "take_at new idx = Inr m_new" unfolding m_new_def by (rule take_at_array2 [OF n b])
  have tf: "take_at frame idx = Inr m_frame" unfolding m_frame_def by (rule take_at_array2 [OF f b])
  have sne: "map (count_list m_new) (unique_values m_new) \<noteq> []"
    using unique_values_nonempty [of m_new] ne by (simp add: m_new_def)
  have tne: "map (count_list m_frame) (unique_values m_frame) \<noteq> []"
    using unique_values_nonempty [of m_frame] ne by (simp add: m_frame_def)
  obtain sq where sq: "divide_by_last (cumsum (map (count_list m_new) (unique_values m_new))) = Inr sq"
    using divide_by_last_ok [OF sne] by blast
  obtain tq where tq: "divide_by_last (cumsum (map (count_list m_frame) (unique_values m_frame))) = Inr tq"
    and ltq: "length tq = length (unique_values m_frame)"
    using divide_by_last_ok [OF tne] by auto
  have tqne: "tq \<noteq> []" using ltq tne by auto
  have ip: "np_interp sq tq (unique_values m_frame) = Inr (map (interp_at (zip tq (unique_values m_frame))) sq)"
    using tqne ltq by (simp add: np_interp_def)
  have "0 < h" "0 < w"
    using ne b [of "fst (hd idx)" "snd (hd idx)"] by (cases idx; auto)+
  then have "list_all (\<lambda>n. n < h * w) (map fst idx @ map snd idx)"
    using b by (auto simp: list_all_iff intro: less_mult_right less_mult_left)
  from ndarray_put_array2 [OF n this]
  obtain out where "ndarray_put new (map fst idx @ map snd idx)
        (map (\<lambda>i. map (interp_at (zip tq (unique_values m_frame))) sq ! i)
           (map (\<lambda>v. index_of v (unique_values m_new)) m_new)) = Inr out" "is_array2 h w out"
    by blast
  then show ?thesis
    using ne tn tf sq tq ip
    by (simp add: hist_match_def matched_values_def idx_def [symmetric] np_unique_def Let_def)
qed


text \<open>Writing a channel back.\<close>

lemma is_array2_length: "is_array2 h w a \<Longrightarrow> length a = h"
  by (simp add: is_array2_def)

lemma set_channel_array3:
  assumes a: "is_array3 h w c a" and ch: "is_array2 h w ch"
  shows "is_array3 h w c (set_channel j ch a)"
proof (rule is_array3I)
  show "length (set_channel j ch a) = h"
    by (simp add: set_channel_def is_array3_length [OF a] is_array2_length [OF ch])
  show "length (set_channel j ch a ! r) = w" if "r < h" for r
    using that
    by (simp add: set_channel_def is_array3_length [OF a] is_array2_length [OF ch]
        is_array3_row [OF a] is_array2_row [OF ch])
  show "length (set_channel j ch a ! r ! x) = c" if "r < h" "x < w" for r x
    using that
    by (simp add: set_channel_def is_array3_length [OF a] is_array2_length [OF ch]
        is_array3_row [OF a] is_array2_row [OF ch] is_array3_px [OF a])
qed

lemma set_channel_nth:
  assumes a: "is_array3 h w c a" and ch: "is_array2 h w ch" and "r < h" and "x < w"
  shows "set_channel j ch a ! r ! x = (a ! r ! x)[j := ch ! r ! x]"
  using assms(3,4)
  by (simp add: set_channel_def is_array3_length [OF a] is_array2_length [OF ch]
      is_array3_row [OF a] is_array2_row [OF ch])

lemma set_channel_same:
  assumes a: "is_array3 h w c a"
  shows "set_channel j (channel_of j a) a = a"
proof (rule image_eqI [OF set_channel_array3 [OF a channel_of_array2 [OF a]] a])
  fix r x k assume b: "r < h" "x < w" "k < c"
  show "set_channel j (channel_of j a) a ! r ! x ! k = a ! r ! x ! k"
    using set_channel_nth [OF a channel_of_array2 [OF a] b(1,2), of j j]
      channel_of_nth [OF a b(1,2), of j]
    by simp
qed

lemma channel_zero_all:
  assumes m: "is_array3 h w c image_mask"
    and z: "\<And>r x. r < h \<Longrightarrow> x < w \<Longrightarrow> image_mask ! r ! x ! k = Fin 0"
  shows "list_all (list_all (\<lambda>v. \<not> is_nonzero v)) (channel_of k image_mask)"
  using m z by (simp add: list_all_length channel_of_def is_array3_length is_array3_row)

lemma hist_match_channel_ok:
  assumes n: "is_array3 h w c new" and f: "is_array3 h w c frame"
    and m: "is_array3 h w c image_mask" and hw: "0 < h" "0 < w" and j: "j < c"
  shows "\<exists>out. hist_match_channel frame image_mask j new = Inr out \<and> is_array3 h w c out
     \<and> (\<forall>r<h. \<forall>x<w. \<forall>k<c. k \<noteq> j \<longrightarrow> out ! r ! x ! k = new ! r ! x ! k)
     \<and> ((\<forall>r<h. \<forall>x<w. image_mask ! r ! x ! j = Fin 0) \<longrightarrow> out = new)"
proof -
  have d: "j < depth new" "j < depth frame" "j < depth image_mask"
    using is_array3_depth [OF n hw] is_array3_depth [OF f hw] is_array3_depth [OF m hw] j
    by simp_all
  obtain ch where ch: "hist_match (channel_of j new) (channel_of j frame) (channel_of j image_mask) = Inr ch"
    and cha: "is_array2 h w ch"
    using hist_match_total [OF channel_of_array2 [OF n] channel_of_array2 [OF f]
        channel_of_array2 [OF m]] by blast
  have run: "hist_match_channel frame image_mask j new = Inr (set_channel j ch new)"
    using d ch by (simp add: hist_match_channel_def)
  have other: "set_channel j ch new ! r ! x ! k = new ! r ! x ! k"
    if "r < h" "x < w" "k \<noteq> j" for r x k
    using set_channel_nth [OF n cha that(1,2), of j] that(3) by simp
  have same: "set_channel j ch new = new" if z: "\<forall>r<h. \<forall>x<w. image_mask ! r ! x ! j = Fin 0"
  proof -
    have "list_all (list_all (\<lambda>v. \<not> is_nonzero v)) (channel_of j image_mask)"
      by (rule channel_zero_all [OF m]) (use z in blast)
    then have "ch = channel_of j new"
      using ch np_nonzero2_zero [of "channel_of j image_mask"] by (simp add: hist_match_def)
    then show ?thesis using set_channel_same [OF n] by simp
  qed
  show ?thesis using run set_channel_array3 [OF n cha] other same by blast
qed

lemma hist_match_channel_keeps_nan:
  assumes n: "is_array3 h w c new" and f: "is_array3 h w c frame"
    and m: "is_array3 h w c image_mask" and hw: "0 < h" "0 < w" and j: "j < c" and k: "k < c"
    and z: "\<forall>r<h. \<forall>x<w. image_mask ! r ! x ! k = Fin 0"
    and nan: "\<forall>r<h. \<forall>x<w. new ! r ! x ! k = NaN"
  shows "\<exists>out. hist_match_channel frame image_mask j new = Inr out \<and> is_array3 h w c out
     \<and> (\<forall>r<h. \<forall>x<w. out ! r ! x ! k = NaN)"
proof -
  obtain out where run: "hist_match_channel frame image_mask j new = Inr out"
    and arr: "is_array3 h w c out"
    and other: "\<forall>r<h. \<forall>x<w. \<forall>k<c. k \<noteq> j \<longrightarrow> out ! r ! x ! k = new ! r ! x ! k"
    and same: "(\<forall>r<h. \<forall>x<w. image_mask ! r ! x ! j = Fin 0) \<longrightarrow> out = new"
    using hist_match_channel_ok [OF n f m hw j] by blast
  have "\<forall>r<h. \<forall>x<w. out ! r ! x ! k = NaN"
  proof (cases "k = j")
    case True
    then have "out = new" using same z by simp
    then show ?thesis using nan by simp
  next
    case False
    then show ?thesis using other nan k by simp
  qed
  then show ?thesis using run arr by blast
qed

lemma color_hist_match_keeps_nan:
  assumes n: "is_array3 h w 3 new" and f: "is_array3 h w 3 frame"
    and m: "is_array3 h w 3 image_mask" and hw: "0 < h" "0 < w" and k: "k < 3"
    and z: "\<forall>r<h. \<forall>x<w. image_mask ! r ! x ! k = Fin 0"
    and nan: "\<forall>r<h. \<forall>x<w. new ! r ! x ! k = NaN"
  shows "\<exists>out. color_hist_match new frame image_mask = Inr out \<and> is_array3 h w 3 out
     \<and> (\<forall>r<h. \<forall>x<w. out ! r ! x ! k = NaN)"
proof -
  obtain n0 where r0: "hist_match_channel frame image_mask 0 new = Inr n0"
    and a0: "is_array3 h w 3 n0" and p0: "\<forall>r<h. \<forall>x<w. n0 ! r ! x ! k = NaN"
    using hist_match_channel_keeps_nan [OF n f m hw _ k z nan, of 0] by auto
  obtain n1 where r1: "hist_match_channel frame image_mask 1 n0 = Inr n1"
    and a1: "is_array3 h w 3 n1" and p1: "\<forall>r<h. \<forall>x<w. n1 ! r ! x ! k = NaN"
    using hist_match_channel_keeps_nan [OF a0 f m hw _ k z p0, of 1] by auto
  obtain n2 where r2: "hist_match_channel frame image_mask 2 n1 = Inr n2"
    and a2: "is_array3 h w 3 n2" and p2: "\<forall>r<h. \<forall>x<w. n2 ! r ! x ! k = NaN"
    using hist_match_channel_keeps_nan [OF a1 f m hw _ k z p1, of 2] by auto
  show ?thesis using r0 r1 r2 a2 p2 by (simp add: color_hist_match_def)
qed

lemma color_correct_nan:
  assumes adj: "avg_color_adjust a"
    and n: "is_array3 h w 3 (sharpen cv a new_image)" and f: "is_array3 h w 3 frame"
    and m: "is_array3 h w 3 image_mask" and hw: "0 < h" "0 < w" and k: "k < 3"
    and z: "\<forall>r<h. \<forall>x<w. image_mask ! r ! x ! k = Fin 0"
  shows "\<exists>masked. color_correct cv a frame image_mask new_image = Inr masked
     \<and> is_array3 h w 3 masked \<and> (\<forall>r<h. \<forall>x<w. masked ! r ! x ! k = NaN)"
proof -
  have z': "\<And>r x. r < h \<Longrightarrow> x < w \<Longrightarrow> image_mask ! r ! x ! k = Fin 0" using z by blast
  obtain m1 where r1: "avg_color_round frame image_mask (sharpen cv a new_image) = Inr m1"
    and a1: "is_array3 h w 3 m1"
    using avg_color_round_nan [OF f m n k z'] by blast
  obtain m2 where r2: "avg_color_round frame image_mask m1 = Inr m2"
    and a2: "is_array3 h w 3 m2" and p2: "\<forall>r<h. \<forall>x<w. m2 ! r ! x ! k = NaN"
    using avg_color_round_nan [OF f m a1 k z'] by blast
  have avg: "avg_color a frame image_mask (sharpen cv a new_image) = Inr m2"
    using adj r1 r2 by (simp add: avg_color_def)
  show ?thesis
  proof (cases "match_histogram a")
    case False
    then show ?thesis using avg a2 p2 by (simp add: color_correct_def histogram_def)
  next
    case True
    have ac: "is_array3 h w 3 (map_image (clip 0 255) m2)" by (rule map_image_array3 [OF a2])
    have pc: "\<forall>r<h. \<forall>x<w. map_image (clip 0 255) m2 ! r ! x ! k = NaN"
      using p2 k map_image_nth [OF a2, of _ _ k "clip 0 255"] by simp
    from color_hist_match_keeps_nan [OF ac f m hw k z pc]
    show ?thesis using True avg by (simp add: color_correct_def histogram_def)
  qed
qed

lemma fmul_NaN_left [simp]: "fmul NaN v = NaN"
  by (cases v) simp_all

lemma fadd_NaN_left [simp]: "fadd NaN v = NaN"
  by (cases v) simp_all

text \<open>
  C10. Let \<open>avg_color_adjust\<close> be set and let channel \<open>k\<close> of the mask hold no nonzero
  element, on a frame, a mask and a (sharpened) synthesised image of one shape
  \<open>h \<times> w \<times> 3\<close>. The sum of the mask over that channel is zero and the weighted sum of the
  differences is zero or NaN, so the adjustment of the channel is NaN and every pixel
  of the colour-corrected image is NaN in channel \<open>k\<close>, histogram matching switched on or
  off. In the linear blend NaN stays NaN, and each output pixel holds in channel \<open>k\<close>
  whatever the conversion to 8 bits makes of NaN. \<open>hist_match\<close> on the same channel is
  the identity (C8).
\<close>

theorem avg_color_adjust_zero_mask_nan:
  assumes adj: "avg_color_adjust a"
    and n: "is_array3 h w 3 (sharpen cv a new_image)" and f: "is_array3 h w 3 frame"
    and m: "is_array3 h w 3 image_mask" and hw: "0 < h" "0 < w" and k: "k < 3"
    and z: "\<forall>r<h. \<forall>x<w. image_mask ! r ! x ! k = Fin 0"
  shows "(\<exists>masked. color_correct cv a frame image_mask new_image = Inr masked
            \<and> (\<forall>r<h. \<forall>x<w. masked ! r ! x ! k = NaN))
    \<and> (\<not> seamless_clone a \<and> \<not> draw_transparent a \<longrightarrow>
         (\<exists>blended out. bind (color_correct cv a frame image_mask new_image)
                            (\<lambda>masked. linear_blend frame masked image_mask) = Inr blended
            \<and> (\<forall>r<h. \<forall>x<w. blended ! r ! x ! k = NaN)
            \<and> apply_fixes cv a frame new_image image_mask image_size = Inr out
            \<and> (\<forall>r<h. \<forall>x<w. out ! r ! x ! k = out_of_range_cast cv NaN)))"
proof -
  obtain masked where cc: "color_correct cv a frame image_mask new_image = Inr masked"
    and am: "is_array3 h w 3 masked" and nan: "\<forall>r<h. \<forall>x<w. masked ! r ! x ! k = NaN"
    using color_correct_nan [OF assms] by blast
  define blended where "blended = zip_image fadd (zip_image fmul masked image_mask)
            (zip_image fmul frame (map_image (fsub (Fin 1)) image_mask))"
  have lb: "linear_blend frame masked image_mask = Inr blended"
    unfolding blended_def by (rule linear_blend_array3 [OF f am m])
  note inv = map_image_array3 [OF m, of "fsub (Fin 1)"]
  note fg = zip_image_array3 [OF am m, of fmul]
  note bg = zip_image_array3 [OF f inv, of fmul]
  have ab: "is_array3 h w 3 blended" unfolding blended_def by (rule zip_image_array3 [OF fg bg])
  have bn: "blended ! r ! x ! k = NaN" if b: "r < h" "x < w" for r x
    unfolding blended_def
    using nan b by (simp add: zip_image_nth [OF fg bg b k] zip_image_nth [OF am m b k])
  have c1: "is_array3 h w 3 (map_image (clip 0 255) blended)" by (rule map_image_array3 [OF ab])
  have c2: "is_array3 h w 3 (map_image rint (map_image (clip 0 255) blended))"
    by (rule map_image_array3 [OF c1])
  have on: "to_uint8 cv blended ! r ! x ! k = out_of_range_cast cv NaN" if b: "r < h" "x < w" for r x
    unfolding to_uint8_def
    using bn [OF b]
    by (simp add: map_image_nth [OF c2 b k] map_image_nth [OF c1 b k] map_image_nth [OF ab b k]
        astype_uint8_def)
  have run: "apply_fixes cv a frame new_image image_mask image_size = Inr (to_uint8 cv blended)"
    if "\<not> seamless_clone a" "\<not> draw_transparent a"
    using that cc lb by (simp add: apply_fixes_def)
  show ?thesis using cc nan lb bn on run by auto
qed


theorem avg_color_adjust_zero_mask_nan_witness:
  "avg_color_adjust (args_plain\<lparr>avg_color_adjust := True\<rparr>)
   \<and> is_array3 1 1 3 (sharpen cv2_plain (args_plain\<lparr>avg_color_adjust := True\<rparr>) [[[Fin 1, Fin 2, Fin 3]]])
   \<and> is_array3 1 1 3 [[[Fin 10, Fin 20, Fin 30]]]
   \<and> is_array3 1 1 3 [[[Fin 0, Fin 1, Fin 1]]]
   \<and> [[[Fin 0, Fin 1, Fin 1]]] ! 0 ! 0 ! 0 = Fin 0
   \<and> \<not> seamless_clone (args_plain\<lparr>avg_color_adjust := True\<rparr>)
   \<and> \<not> draw_transparent (args_plain\<lparr>avg_color_adjust := True\<rparr>)
   \<and> (\<exists>masked. color_correct cv2_plain (args_plain\<lparr>avg_color_adjust := True\<rparr>)
          [[[Fin 10, Fin 20, Fin 30]]] [[[Fin 0, Fin 1, Fin 1]]] [[[Fin 1, Fin 2, Fin 3]]] = Inr masked
          \<and> masked ! 0 ! 0 ! 0 = NaN)
   \<and> (\<exists>out. apply_fixes cv2_plain (args_plain\<lparr>avg_color_adjust := True\<rparr>)
          [[[Fin 10, Fin 20, Fin 30]]] [[[Fin 1, Fin 2, Fin 3]]] [[[Fin 0, Fin 1, Fin 1]]] (1, 1) = Inr out
          \<and> out ! 0 ! 0 ! 0 = out_of_range_cast cv2_plain NaN)"
proof -
  have a: "avg_color_adjust (args_plain\<lparr>avg_color_adjust := True\<rparr>)" by simp
  have n: "is_array3 1 1 3 (sharpen cv2_plain (args_plain\<lparr>avg_color_adjust := True\<rparr>) [[[Fin 1, Fin 2, Fin 3]]])"
    by (simp add: sharpen_def args_plain_def is_array3_def)
  have f: "is_array3 1 1 3 [[[Fin 10, Fin 20, Fin 30]]]" by (simp add: is_array3_def)
  have m: "is_array3 1 1 3 [[[Fin 0, Fin 1, Fin 1]]]" by (simp add: is_array3_def)
  have z: "\<forall>r<1. \<forall>x<1. [[[Fin 0, Fin 1, Fin 1]]] ! r ! x ! 0 = Fin 0" by simp
  have s: "\<not> seamless_clone (args_plain\<lparr>avg_color_adjust := True\<rparr>)"
    "\<not> draw_transparent (args_plain\<lparr>avg_color_adjust := True\<rparr>)"
    by (simp_all add: args_plain_def)
  note t = avg_color_adjust_zero_mask_nan [OF a n f m _ _ _ z, of "(1, 1)"]
  have "(\<exists>masked. color_correct cv2_plain (args_plain\<lparr>avg_color_adjust := True\<rparr>)
          [[[Fin 10, Fin 20, Fin 30]]] [[[Fin 0, Fin 1, Fin 1]]] [[[Fin 1, Fin 2, Fin 3]]] = Inr masked
          \<and> masked ! 0 ! 0 ! 0 = NaN)"
    using t by auto
  moreover have "(\<exists>out. apply_fixes cv2_plain (args_plain\<lparr>avg_color_adjust := True\<rparr>)
          [[[Fin 10, Fin 20, Fin 30]]] [[[Fin 1, Fin 2, Fin 3]]] [[[Fin 0, Fin 1, Fin 1]]] (1, 1) = Inr out
          \<and> out ! 0 ! 0 ! 0 = out_of_range_cast cv2_plain NaN)"
    using t s by auto
  moreover have "[[[Fin 0, Fin 1, Fin 1]]] ! 0 ! 0 ! 0 = Fin 0" by simp
  ultimately show ?thesis using a n f m s by blast
qed


text \<open>The same on one pixel, evaluated: the channel with the zero mask comes out of the
  colour correction as NaN, the two others are moved onto the frame.\<close>

lemma color_correct_nan_example:
  "color_correct cv2_plain (args_plain\<lparr>avg_color_adjust := True\<rparr>)
     [[[Fin 10, Fin 20, Fin 30]]] [[[Fin 0, Fin 1, Fin 1]]] [[[Fin 1, Fin 2, Fin 3]]]
   = Inr [[[NaN, Fin 20, Fin 30]]]"
  by code_simp

subsection \<open>The masks of the hull and of the rectangle\<close>









lemma facehull_rect_instance:
  "facehull_rect mask_instance cv2_instance [[1, 0, 0], [0, 1, 0]] (INTER_CUBIC, 3)
      [(0, 0), (3, 0), (3, 2), (0, 2)] (3, 2)
   = Inr [[[Fin 1, Fin 1, Fin 1], [Fin 0, Fin 0, Fin 0], [Fin 0, Fin 0, Fin 0]],
          [[Fin 0, Fin 0, Fin 0], [Fin 0, Fin 0, Fin 0], [Fin 0, Fin 0, Fin 0]]]"
  by code_simp



subsection \<open>What \<open>patch_image\<close> does to the \<open>DetectedFace\<close>\<close>















end
